theory Spec2Isabelle
  imports Main "HOL-Library.Extended_Nat"
begin

section \<open>Usage credits of the Copilot usage API (app.py)\<close>

text \<open>
  The embedding follows \<^verbatim>\<open>app.py\<close> function by function.

  Numbers. The source computes with Python floats whose literals are all decimal
  fractions (0.05, 0.1, 0.2, 0.3). The model computes with exact rationals (\<^typ>\<open>rat\<close>):
  it describes the decimal arithmetic the source denotes and leaves the binary rounding
  error of IEEE doubles out. \<^verbatim>\<open>round(x, 2)\<close> is modelled as rounding to the nearest
  multiple of 1/100, ties to the even neighbour, as Python 3 does.

  Text. A Python character is modelled by a \<^typ>\<open>char\<close>, read as a code point below 256
  (Latin-1); \<^verbatim>\<open>len\<close> counts these characters.
\<close>

subsection \<open>Constants\<close>

text \<open>The dictionary \<^verbatim>\<open>CREDIT_COSTS\<close>, one constant per key.\<close>

definition cost_base :: rat where
  "cost_base = 1"

definition cost_char :: rat where
  "cost_char = 5 / 100"

definition cost_third_vowel :: rat where
  "cost_third_vowel = 3 / 10"

definition length_penalty_threshold :: nat where
  "length_penalty_threshold = 100"

definition cost_length_penalty :: rat where
  "cost_length_penalty = 5"

definition cost_unique_word_bonus :: rat where
  "cost_unique_word_bonus = - 2"

definition VOWELS :: string where
  "VOWELS = ''aeiouAEIOU''"

subsection \<open>Characters\<close>

definition in_range :: "nat \<Rightarrow> nat \<Rightarrow> char \<Rightarrow> bool" where
  "in_range lo hi c = (lo \<le> of_char c \<and> (of_char c :: nat) \<le> hi)"

text \<open>
  \<^verbatim>\<open>str.lower\<close> on one character below 256: the ASCII capitals A-Z and the Latin-1
  capitals U+00C0-U+00DE (without the multiplication sign U+00D7) move up by 32, every
  other character stays.
\<close>

definition lower_char :: "char \<Rightarrow> char" where
  "lower_char c =
     (if in_range 65 90 c \<or> (in_range 192 222 c \<and> of_char c \<noteq> (215::nat))
      then char_of (of_char c + (32::nat)) else c)"

definition lower :: "string \<Rightarrow> string" where
  "lower text = map lower_char text"

text \<open>The character class \<^verbatim>\<open>[a-zA-Z0-9]\<close>, whose complement \<^verbatim>\<open>re.sub\<close> removes.\<close>

definition is_alnum :: "char \<Rightarrow> bool" where
  "is_alnum c = (in_range 97 122 c \<or> in_range 65 90 c \<or> in_range 48 57 c)"

text \<open>The character class of \<^verbatim>\<open>WORD_PATTERN\<close>: letters, apostrophe (39), hyphen (45).\<close>

definition is_word_char :: "char \<Rightarrow> bool" where
  "is_word_char c =
     (in_range 97 122 c \<or> in_range 65 90 c \<or> of_char c = (39::nat) \<or> of_char c = (45::nat))"

subsection \<open>Text metrics\<close>

definition is_palindrome :: "string \<Rightarrow> bool" where
  "is_palindrome text =
     (let cleaned_text = filter is_alnum (lower text)
      in cleaned_text = rev cleaned_text)"

text \<open>
  \<^verbatim>\<open>re.findall(WORD_PATTERN, text)\<close>: the maximal runs of word characters, left to
  right. \<open>cur\<close> is the run being read.
\<close>

fun scan_words :: "string \<Rightarrow> string \<Rightarrow> string list" where
  "scan_words cur [] = (if cur = [] then [] else [cur])"
| "scan_words cur (c # cs) =
     (if is_word_char c then scan_words (cur @ [c]) cs
      else if cur = [] then scan_words [] cs
      else cur # scan_words [] cs)"

definition extract_words :: "string \<Rightarrow> string list" where
  "extract_words text = scan_words [] text"

text \<open>
  The generator of \<^verbatim>\<open>calculate_third_vowel_cost\<close>: \<^verbatim>\<open>enumerate(text, start=1)\<close>
  filtered by \<^verbatim>\<open>i % 3 == 0 and char in VOWELS\<close>.
\<close>

definition third_vowel_hits :: "string \<Rightarrow> (nat \<times> char) list" where
  "third_vowel_hits text =
     filter (\<lambda>(i, char). i mod 3 = 0 \<and> char \<in> set VOWELS) (List.enumerate 1 text)"

definition calculate_third_vowel_cost :: "string \<Rightarrow> rat" where
  "calculate_third_vowel_cost text =
     sum_list (map (\<lambda>_. cost_third_vowel) (third_vowel_hits text))"

subsection \<open>Cost rules\<close>

definition calculate_char_cost :: "nat \<Rightarrow> rat" where
  "calculate_char_cost message_length = cost_char * of_nat message_length"

datatype category = Short | Medium | Long

fun category_costs :: "category \<Rightarrow> rat" where
  "category_costs Short = 1 / 10"
| "category_costs Medium = 2 / 10"
| "category_costs Long = 3 / 10"

text \<open>The upper end of the last range is \<^verbatim>\<open>float("inf")\<close>.\<close>

fun ranges :: "category \<Rightarrow> nat \<times> enat" where
  "ranges Short = (1, enat 3)"
| "ranges Medium = (4, enat 7)"
| "ranges Long = (8, \<infinity>)"

text \<open>\<^verbatim>\<open>sum(1 for word in words if r[0] <= len(word) <= r[1])\<close>\<close>

definition words_in_range :: "nat \<times> enat \<Rightarrow> string list \<Rightarrow> nat" where
  "words_in_range r words =
     length (filter (\<lambda>word. fst r \<le> length word \<and> enat (length word) \<le> snd r) words)"

definition calculate_word_costs :: "string list \<Rightarrow> rat" where
  "calculate_word_costs words =
     sum_list (map (\<lambda>c. of_nat (words_in_range (ranges c) words) * category_costs c)
                   [Short, Medium, Long])"

subsection \<open>Credit calculation\<close>

text \<open>Rounding to the nearest integer, ties to even.\<close>

definition round_half_even :: "rat \<Rightarrow> int" where
  "round_half_even q =
     (let f = \<lfloor>q\<rfloor>; d = q - of_int f
      in if d < 1 / 2 then f
         else if 1 / 2 < d then f + 1
         else if even f then f else f + 1)"

definition round2 :: "rat \<Rightarrow> rat" where
  "round2 x = of_int (round_half_even (x * 100)) / 100"

text \<open>
  \<^verbatim>\<open>total_cost\<close> of \<^verbatim>\<open>calculate_credits\<close> before the palindrome test: the sum of the
  six components.
\<close>

definition total_cost :: "string \<Rightarrow> rat" where
  "total_cost message_text =
     (let message_length = length message_text;
          words = extract_words message_text;
          char_cost = calculate_char_cost message_length;
          word_costs = calculate_word_costs words;
          third_vowel_cost = calculate_third_vowel_cost message_text;
          length_penalty =
            (if message_length > length_penalty_threshold then cost_length_penalty else 0);
          unique_word_bonus =
            (if card (set words) = length words then cost_unique_word_bonus else 0)
      in cost_base + char_cost + word_costs + third_vowel_cost + length_penalty
         + unique_word_bonus)"

text \<open>
  \<^verbatim>\<open>calculate_credits\<close>; its second argument \<^verbatim>\<open>message_id\<close> is only logged and is
  left out.
\<close>

definition calculate_credits :: "string \<Rightarrow> rat" where
  "calculate_credits message_text =
     (let total = total_cost message_text;
          total = (if is_palindrome message_text then total * 2 else total)
      in max 1 (round2 total))"

section \<open>Resolving messages into usage records\<close>

subsection \<open>Values, reports and the report service\<close>

text \<open>
  A JSON value as the report service returns it: null, a number or a string. The credits
  of a usage record are such a value too, since a report's \<^verbatim>\<open>credit_cost\<close> is passed
  on as it came.
\<close>

datatype "value" = VNone | VNum rat | VStr string

text \<open>Python's truth test, as in \<^verbatim>\<open>if report_name:\<close>.\<close>

fun truthy :: "value \<Rightarrow> bool" where
  "truthy VNone = False"
| "truthy (VNum x) = (x \<noteq> 0)"
| "truthy (VStr s) = (s \<noteq> [])"

text \<open>
  The decoded body of a report: a dictionary, kept as the list of its items.
  \<^verbatim>\<open>d.get(k)\<close> is \<open>map_of d k\<close>, and the dictionary is falsy when the list is empty.
\<close>

type_synonym pydict = "(string \<times> value) list"

text \<open>
  What \<^verbatim>\<open>requests.get\<close> does for a URL: it raises \<^verbatim>\<open>RequestException\<close>, or it returns a
  response with a status code and a body (taken as already decoded by
  \<^verbatim>\<open>response.json()\<close>). The service is a parameter \<open>requests_get\<close> of the model; its
  answer depends on the URL only, so the \<^verbatim>\<open>lru_cache\<close> around \<^verbatim>\<open>fetch_report\<close> does not
  show and is left out.
\<close>

datatype http_result = RequestException | Response int pydict

text \<open>
  The exceptions that leave the functions below: \<^verbatim>\<open>ValueError\<close> and the plain
  \<^verbatim>\<open>Exception\<close>, each with its message.
\<close>

datatype error = ValueError string | Exception string

definition report_url :: "string \<Rightarrow> string" where
  "report_url report_id =
     ''https://owpublic.blob.core.windows.net/tech-task/reports/'' @ report_id"

definition fetch_report :: "(string \<Rightarrow> http_result) \<Rightarrow> string \<Rightarrow> error + pydict option" where
  "fetch_report requests_get report_id =
     (case requests_get (report_url report_id) of
        RequestException \<Rightarrow>
          Inl (Exception (''Failed to fetch report '' @ report_id
                          @ '' due to an HTTP request error.''))
      | Response status_code body \<Rightarrow>
          if status_code = 200 then Inr (Some body)
          else if status_code = 404 then Inr None
          else if status_code = 403 then
            Inl (Exception ''Access to report details is forbidden.'')
          else if status_code \<ge> 500 then
            Inl (Exception ''The reports service is currently unavailable.'')
          else Inl (Exception (''Unexpected error for report_id '' @ report_id @ ''.'')))"

text \<open>
  \<^verbatim>\<open>process_report\<close> returns the pair \<^verbatim>\<open>(report_name, credits_used)\<close>. The name is
  \<^verbatim>\<open>report_data.get("name")\<close>, hence \<open>VNone\<close> when the key is missing; the credits are
  \<^verbatim>\<open>report_data.get("credit_cost", 0)\<close>.
\<close>

definition process_report ::
  "(string \<Rightarrow> http_result) \<Rightarrow> string \<Rightarrow> string \<Rightarrow> error + (value \<times> value)" where
  "process_report requests_get report_id message_text =
     (case fetch_report requests_get report_id of
        Inl e \<Rightarrow> Inl e
      | Inr report_data \<Rightarrow>
          (case report_data of
             Some d \<Rightarrow>
               if d \<noteq> [] then
                 Inr (case map_of d ''name'' of None \<Rightarrow> VNone | Some n \<Rightarrow> n,
                      case map_of d ''credit_cost'' of None \<Rightarrow> VNum 0 | Some c \<Rightarrow> c)
               else Inr (VNone, VNum (calculate_credits message_text))
           | None \<Rightarrow> Inr (VNone, VNum (calculate_credits message_text))))"

subsection \<open>Messages and usage records\<close>

text \<open>
  A message dictionary with the types of the source's annotations: each of the four keys
  is present with a value or absent (\<open>None\<close>). For \<^verbatim>\<open>report_id\<close>, which is read with
  \<^verbatim>\<open>message.get\<close>, absent and null are the same.
\<close>

record message =
  id_field :: "int option"
  timestamp_field :: "string option"
  text_field :: "string option"
  report_id_field :: "string option"

text \<open>
  An element of the batch: a dictionary, or something else, of which only its rendering in
  the error message is kept.
\<close>

datatype raw_message = NotADict string | Dict message

text \<open>
  The dictionary \<^verbatim>\<open>usage_entry\<close>; \<open>report_name = None\<close> says that the key
  \<^verbatim>\<open>report_name\<close> is not in it.
\<close>

record usage_entry =
  message_id :: int
  timestamp :: string
  credits_used :: "value"
  report_name :: "value option"

text \<open>
  The message of the \<^verbatim>\<open>ValueError\<close> made from \<^verbatim>\<open>KeyError(key)\<close>, whose rendering is the
  key between apostrophes.
\<close>

definition missing_key :: "string \<Rightarrow> error" where
  "missing_key key = ValueError (''Missing key in message: '' @ [CHR 0x27] @ key @ [CHR 0x27])"

definition make_usage_entry :: "int \<Rightarrow> string \<Rightarrow> value \<Rightarrow> value \<Rightarrow> usage_entry" where
  "make_usage_entry mid ts credits name =
     \<lparr>message_id = mid, timestamp = ts, credits_used = credits,
      report_name = (if truthy name then Some name else None)\<rparr>"

text \<open>
  \<^verbatim>\<open>process_message\<close>. The keys are read in the order of the source: \<^verbatim>\<open>id\<close>,
  \<^verbatim>\<open>timestamp\<close>, then \<^verbatim>\<open>report_id\<close> with \<^verbatim>\<open>get\<close>, then \<^verbatim>\<open>text\<close> as an argument of
  the call, before the call is made. \<open>local\<close> is the \<^verbatim>\<open>else\<close> branch of
  \<^verbatim>\<open>if report_id:\<close>, taken when the report id is absent, null or the empty string.
\<close>

definition process_message ::
  "(string \<Rightarrow> http_result) \<Rightarrow> raw_message \<Rightarrow> error + usage_entry" where
  "process_message requests_get raw =
     (case raw of
        NotADict shown \<Rightarrow> Inl (ValueError (''Invalid message format: '' @ shown))
      | Dict m \<Rightarrow>
          (case id_field m of
             None \<Rightarrow> Inl (missing_key ''id'')
           | Some mid \<Rightarrow>
               (case timestamp_field m of
                  None \<Rightarrow> Inl (missing_key ''timestamp'')
                | Some ts \<Rightarrow>
                    (let local =
                           (case text_field m of
                              None \<Rightarrow> Inl (missing_key ''text'')
                            | Some txt \<Rightarrow>
                                Inr (make_usage_entry mid ts
                                       (VNum (calculate_credits txt)) VNone))
                     in case report_id_field m of
                          None \<Rightarrow> local
                        | Some report_id \<Rightarrow>
                            if report_id \<noteq> [] then
                              (case text_field m of
                                 None \<Rightarrow> Inl (missing_key ''text'')
                               | Some txt \<Rightarrow>
                                   (case process_report requests_get report_id txt of
                                      Inl e \<Rightarrow> Inl e
                                    | Inr (name, credits) \<Rightarrow>
                                        Inr (make_usage_entry mid ts credits name)))
                            else local))))"

text \<open>
  \<^verbatim>\<open>process_messages\<close>: the loop appends one entry per message; an exception leaves
  the loop at once and the list built so far is lost.
\<close>

fun process_messages ::
  "(string \<Rightarrow> http_result) \<Rightarrow> raw_message list \<Rightarrow> error + usage_entry list" where
  "process_messages requests_get [] = Inr []"
| "process_messages requests_get (message # messages) =
     (case process_message requests_get message of
        Inl e \<Rightarrow> Inl e
      | Inr entry \<Rightarrow>
          (case process_messages requests_get messages of
             Inl e \<Rightarrow> Inl e
           | Inr usage_data \<Rightarrow> Inr (entry # usage_data)))"

section \<open>Properties of the credit calculation\<close>

subsection \<open>Auxiliary facts\<close>

text \<open>The word scanner on the example of the test suite.\<close>

lemma extract_words_example:
  "extract_words ''Hello, World! Isn't it great?'' =
     [''Hello'', ''World'', ''Isn'' @ [CHR 0x27] @ ''t'', ''it'', ''great'']"
  by code_simp

lemma round_half_even_of_int: "round_half_even (of_int k) = k"
  by (simp add: round_half_even_def)

lemma round2_hundredths: "round2 (of_int k / 100) = of_int k / 100"
  by (simp add: round2_def round_half_even_of_int)

lemma calculate_word_costs_tenths: "\<exists>k::int. calculate_word_costs ws = of_int k / 10"
proof -
  let ?s = "words_in_range (ranges Short) ws" and ?m = "words_in_range (ranges Medium) ws"
    and ?l = "words_in_range (ranges Long) ws"
  have "calculate_word_costs ws = of_int (int ?s + 2 * int ?m + 3 * int ?l) / 10"
    by (simp add: calculate_word_costs_def field_simps)
  then show ?thesis by blast
qed

lemma third_vowel_cost_tenths:
  "calculate_third_vowel_cost text = of_int (3 * int (length (third_vowel_hits text))) / 10"
  by (simp add: calculate_third_vowel_cost_def cost_third_vowel_def sum_list_triv)

lemma total_cost_twentieths: "\<exists>k::int. total_cost text = of_int k / 20"
proof -
  obtain w :: int where w: "calculate_word_costs (extract_words text) = of_int w / 10"
    using calculate_word_costs_tenths by blast
  define p :: int where "p = (if length text > length_penalty_threshold then 5 else 0)"
  define u :: int where
    "u = (if card (set (extract_words text)) = length (extract_words text) then - 2 else 0)"
  have "total_cost text =
      of_int (20 + int (length text) + 2 * w + 6 * int (length (third_vowel_hits text))
              + 20 * p + 20 * u) / 20"
    by (simp add: total_cost_def Let_def w third_vowel_cost_tenths calculate_char_cost_def
        cost_base_def cost_char_def cost_length_penalty_def cost_unique_word_bonus_def
        p_def u_def field_simps)
  then show ?thesis by blast
qed

lemma round2_total_cost: "round2 (total_cost text) = total_cost text"
proof -
  obtain k :: int where k: "total_cost text = of_int k / 20"
    using total_cost_twentieths by blast
  have "total_cost text = of_int (5 * k) / 100" by (simp add: k)
  then show ?thesis by (metis round2_hundredths)
qed


lemma enumerate_hits_card:
  "length (filter (\<lambda>(i, c). Q i c) (List.enumerate 1 xs)) =
     card {i. 1 \<le> i \<and> i \<le> length xs \<and> Q i (xs ! (i - 1))}"
proof (induction xs rule: rev_induct)
  case Nil
  then show ?case by simp
next
  case (snoc x xs)
  let ?n = "length xs"
  let ?A = "{i. 1 \<le> i \<and> i \<le> ?n \<and> Q i (xs ! (i - 1))}"
  have fin: "finite ?A" by simp
  have enum: "List.enumerate 1 (xs @ [x]) = List.enumerate 1 xs @ [(Suc ?n, x)]"
    by (simp add: enumerate_append_eq)
  have split: "{i. 1 \<le> i \<and> i \<le> length (xs @ [x]) \<and> Q i ((xs @ [x]) ! (i - 1))} =
      (if Q (Suc ?n) x then insert (Suc ?n) ?A else ?A)"
    by (auto simp: nth_append le_Suc_eq)
  have notin: "Suc ?n \<notin> ?A" by simp
  show ?case
    unfolding split enum using snoc.IH fin notin by simp
qed

subsection \<open>Claims about the calculation\<close>






text \<open>
  Claim C8. The third-vowel cost is 0.3 times the number of positions \<open>i\<close>, counted
  from 1 in the raw text, such that \<open>i\<close> is a multiple of 3 and the character at \<open>i\<close>
  is one of a, e, i, o, u in either case. In "Hello, World!" the only such position is 9
  (the letter o), and the cost is 0.3.
\<close>

theorem third_vowel_positions:
  "calculate_third_vowel_cost text =
     3 / 10 * of_nat (card {i. 1 \<le> i \<and> i \<le> length text \<and> i mod 3 = 0
                              \<and> text ! (i - 1) \<in> set ''aeiouAEIOU''})
   \<and> third_vowel_hits ''Hello, World!'' = [(9, CHR ''o'')]
   \<and> calculate_third_vowel_cost ''Hello, World!'' = 3 / 10"
proof -
  have "length (third_vowel_hits text) =
      card {i. 1 \<le> i \<and> i \<le> length text \<and> i mod 3 = 0 \<and> text ! (i - 1) \<in> set VOWELS}"
    unfolding third_vowel_hits_def
    using enumerate_hits_card [of "\<lambda>i c. i mod 3 = 0 \<and> c \<in> set VOWELS" "text"] by simp
  then have a: "calculate_third_vowel_cost text =
     3 / 10 * of_nat (card {i. 1 \<le> i \<and> i \<le> length text \<and> i mod 3 = 0
                              \<and> text ! (i - 1) \<in> set ''aeiouAEIOU''})"
    by (simp add: third_vowel_cost_tenths VOWELS_def)
  have b: "third_vowel_hits ''Hello, World!'' = [(9, CHR ''o'')]"
    by code_simp
  have c: "calculate_third_vowel_cost ''Hello, World!'' = 3 / 10"
    by (simp add: calculate_third_vowel_cost_def b cost_third_vowel_def)
  show ?thesis using a b c by blast
qed

section \<open>Properties of the resolver\<close>

subsection \<open>Auxiliary facts\<close>

lemma fetch_report_failure:
  assumes "requests_get (report_url rid) = RequestException
           \<or> (\<exists>st b. requests_get (report_url rid) = Response st b \<and> st \<noteq> 200 \<and> st \<noteq> 404)"
  shows "\<exists>msg. fetch_report requests_get rid = Inl (Exception msg)"
  using assms by (auto simp: fetch_report_def)

lemma process_message_wellformed:
  assumes "id_field m = Some mid" "timestamp_field m = Some ts" "text_field m = Some txt"
    "report_id_field m = Some rid" "rid \<noteq> []"
  shows "process_message requests_get (Dict m) =
      (case process_report requests_get rid txt of
         Inl e \<Rightarrow> Inl e
       | Inr (name, credits) \<Rightarrow> Inr (make_usage_entry mid ts credits name))"
  using assms by (simp add: process_message_def Let_def)

lemma process_messages_error:
  "m \<in> set messages \<Longrightarrow> process_message requests_get m = Inl e \<Longrightarrow>
   \<exists>e'. process_messages requests_get messages = Inl e'"
  by (induction messages) (auto split: sum.splits)

subsection \<open>Claims about the resolver\<close>

text \<open>
  Claim C2, as amended. Take a message with \<^verbatim>\<open>id\<close>, \<^verbatim>\<open>timestamp\<close>, \<^verbatim>\<open>text\<close> and a
  non-empty \<^verbatim>\<open>report_id\<close>, for which the report service answers 200 with a report that
  has a \<^verbatim>\<open>name\<close> and a \<^verbatim>\<open>credit_cost\<close>. Then \<^verbatim>\<open>process_report\<close> returns that name
  and that cost, and the usage record has \<^verbatim>\<open>credits_used\<close> equal to the report's
  \<^verbatim>\<open>credit_cost\<close> as it came (no floor, no rounding); its \<^verbatim>\<open>report_name\<close> is the
  report's name when that name is truthy (a non-empty string), and the key is left out
  when it is not.
\<close>

theorem report_overrides_credits:
  assumes "id_field m = Some mid" "timestamp_field m = Some ts" "text_field m = Some txt"
    and "report_id_field m = Some rid" "rid \<noteq> []"
    and "requests_get (report_url rid) = Response 200 d"
    and "map_of d ''name'' = Some name" "map_of d ''credit_cost'' = Some cost"
  shows "process_report requests_get rid txt = Inr (name, cost)
     \<and> process_message requests_get (Dict m) =
         Inr \<lparr>message_id = mid, timestamp = ts, credits_used = cost,
              report_name = (if truthy name then Some name else None)\<rparr>"
proof -
  have ne: "d \<noteq> []" using assms(7) by auto
  have fr: "fetch_report requests_get rid = Inr (Some d)"
    using assms(6) by (simp add: fetch_report_def)
  have pr: "process_report requests_get rid txt = Inr (name, cost)"
    using assms(7,8) ne by (simp add: process_report_def fr)
  have "process_message requests_get (Dict m) = Inr (make_usage_entry mid ts cost name)"
    by (simp add: process_message_wellformed [OF assms(1-5)] pr)
  then show ?thesis using pr by (simp add: make_usage_entry_def)
qed

text \<open>Claim C2 at a report named Lease that costs 7.9 credits.\<close>

theorem report_overrides_credits_witness:
  "process_report (\<lambda>_. Response 200 [(''name'', VStr ''Lease''), (''credit_cost'', VNum (79 / 10))])
       ''r1'' ''Hello, world!'' = Inr (VStr ''Lease'', VNum (79 / 10))
   \<and> process_message (\<lambda>_. Response 200 [(''name'', VStr ''Lease''), (''credit_cost'', VNum (79 / 10))])
       (Dict \<lparr>id_field = Some 7, timestamp_field = Some ''2024-04-29'',
              text_field = Some ''Hello, world!'', report_id_field = Some ''r1''\<rparr>) =
       Inr \<lparr>message_id = 7, timestamp = ''2024-04-29'', credits_used = VNum (79 / 10),
            report_name = Some (VStr ''Lease'')\<rparr>"
  using report_overrides_credits
    [of "\<lparr>id_field = Some 7, timestamp_field = Some ''2024-04-29'',
          text_field = Some ''Hello, world!'', report_id_field = Some ''r1''\<rparr>"
        7 "''2024-04-29''" "''Hello, world!''" "''r1''"
        "\<lambda>_. Response 200 [(''name'', VStr ''Lease''), (''credit_cost'', VNum (79 / 10))]"
        "[(''name'', VStr ''Lease''), (''credit_cost'', VNum (79 / 10))]"
        "VStr ''Lease''" "VNum (79 / 10)"]
  by simp

text \<open>
  Claim C2 as it is written promises \<^verbatim>\<open>report_name\<close> equal to the report's name for
  every report. A report whose name is the empty string is resolved (its cost is used),
  yet the usage record has no \<^verbatim>\<open>report_name\<close>.
\<close>

theorem empty_report_name_counterexample:
  "process_message (\<lambda>_. Response 200 [(''name'', VStr ''''), (''credit_cost'', VNum 10)])
       (Dict \<lparr>id_field = Some 7, timestamp_field = Some ''2024-04-29'',
              text_field = Some ''Hello, world!'', report_id_field = Some ''r1''\<rparr>) =
     Inr \<lparr>message_id = 7, timestamp = ''2024-04-29'', credits_used = VNum 10,
          report_name = None\<rparr>"
  by (simp add: process_message_def process_report_def fetch_report_def make_usage_entry_def)

text \<open>
  Claim C3. Take a message with \<^verbatim>\<open>id\<close>, \<^verbatim>\<open>timestamp\<close>, \<^verbatim>\<open>text\<close> and a non-empty
  \<^verbatim>\<open>report_id\<close>, for which the report service answers 404. Then \<^verbatim>\<open>fetch_report\<close>
  returns \<^verbatim>\<open>None\<close> without an error, and the usage record has \<^verbatim>\<open>credits_used\<close> equal
  to \<^verbatim>\<open>calculate_credits\<close> of the text and no \<^verbatim>\<open>report_name\<close>.
\<close>

theorem report_not_found_falls_back:
  assumes "id_field m = Some mid" "timestamp_field m = Some ts" "text_field m = Some txt"
    and "report_id_field m = Some rid" "rid \<noteq> []"
    and "requests_get (report_url rid) = Response 404 body"
  shows "fetch_report requests_get rid = Inr None
     \<and> process_message requests_get (Dict m) =
         Inr \<lparr>message_id = mid, timestamp = ts,
              credits_used = VNum (calculate_credits txt), report_name = None\<rparr>"
proof -
  have fr: "fetch_report requests_get rid = Inr None"
    using assms(6) by (simp add: fetch_report_def)
  have "process_report requests_get rid txt = Inr (VNone, VNum (calculate_credits txt))"
    by (simp add: process_report_def fr)
  then show ?thesis
    using fr by (simp add: process_message_wellformed [OF assms(1-5)] make_usage_entry_def)
qed

text \<open>Claim C3 at a service that answers 404 to everything.\<close>

theorem report_not_found_falls_back_witness:
  "fetch_report (\<lambda>_. Response 404 []) ''r1'' = Inr None
   \<and> process_message (\<lambda>_. Response 404 [])
       (Dict \<lparr>id_field = Some 7, timestamp_field = Some ''2024-04-29'',
              text_field = Some ''Hello, world!'', report_id_field = Some ''r1''\<rparr>) =
       Inr \<lparr>message_id = 7, timestamp = ''2024-04-29'',
            credits_used = VNum (calculate_credits ''Hello, world!''), report_name = None\<rparr>"
  using report_not_found_falls_back
    [of "\<lparr>id_field = Some 7, timestamp_field = Some ''2024-04-29'',
          text_field = Some ''Hello, world!'', report_id_field = Some ''r1''\<rparr>"
        7 "''2024-04-29''" "''Hello, world!''" "''r1''" "\<lambda>_. Response 404 []" "[]"]
  by simp

text \<open>
  Claim C4. When a message dictionary lacks \<^verbatim>\<open>id\<close>, \<^verbatim>\<open>timestamp\<close> or \<^verbatim>\<open>text\<close>,
  \<^verbatim>\<open>process_message\<close> produces no usage record: it raises the \<^verbatim>\<open>ValueError\<close>
  "Missing key in message: 'k'", where k is the first missing key in the order id,
  timestamp, text. This holds whatever the report service would answer.
\<close>

theorem missing_field_is_value_error:
  assumes "id_field m = None \<or> timestamp_field m = None \<or> text_field m = None"
  shows "process_message requests_get (Dict m) =
     Inl (ValueError (''Missing key in message: '' @ [CHR 0x27]
            @ (if id_field m = None then ''id''
               else if timestamp_field m = None then ''timestamp'' else ''text'')
            @ [CHR 0x27]))"
  using assms
  by (auto simp: process_message_def missing_key_def Let_def split: option.splits)

text \<open>Claim C4 at a message without text whose report exists.\<close>

theorem missing_field_is_value_error_witness:
  "process_message (\<lambda>_. Response 200 [(''name'', VStr ''Lease''), (''credit_cost'', VNum 10)])
     (Dict \<lparr>id_field = Some 7, timestamp_field = Some ''2024-04-29'',
            text_field = None, report_id_field = Some ''r1''\<rparr>) =
     Inl (ValueError (''Missing key in message: '' @ [CHR 0x27] @ ''text'' @ [CHR 0x27]))"
  using missing_field_is_value_error
    [of "\<lparr>id_field = Some 7, timestamp_field = Some ''2024-04-29'',
          text_field = None, report_id_field = Some ''r1''\<rparr>"
        "\<lambda>_. Response 200 [(''name'', VStr ''Lease''), (''credit_cost'', VNum 10)]"]
  by simp

text \<open>
  Claim C5. Let a batch contain a message with a non-empty \<^verbatim>\<open>report_id\<close> for which the
  request raises or is answered with a status other than 200 and 404 (so 403, 500 and
  above, or any other status). Then \<^verbatim>\<open>fetch_report\<close> raises an \<^verbatim>\<open>Exception\<close>; if the
  message has its required keys, \<^verbatim>\<open>process_message\<close> raises that same exception
  instead of computing the credits locally; in every case the message yields an error,
  and \<^verbatim>\<open>process_messages\<close> yields an error for the whole batch and no list.
\<close>

theorem lookup_failure_aborts_batch:
  assumes "Dict m \<in> set messages"
    and "report_id_field m = Some rid" "rid \<noteq> []"
    and "requests_get (report_url rid) = RequestException
         \<or> (\<exists>st b. requests_get (report_url rid) = Response st b \<and> st \<noteq> 200 \<and> st \<noteq> 404)"
  shows "\<exists>msg. fetch_report requests_get rid = Inl (Exception msg)
     \<and> (id_field m \<noteq> None \<and> timestamp_field m \<noteq> None \<and> text_field m \<noteq> None
          \<longrightarrow> process_message requests_get (Dict m) = Inl (Exception msg))
     \<and> (\<exists>e. process_message requests_get (Dict m) = Inl e)
     \<and> (\<exists>e. process_messages requests_get messages = Inl e)"
proof -
  obtain msg where fr: "fetch_report requests_get rid = Inl (Exception msg)"
    using fetch_report_failure [of requests_get rid] assms(4) by blast
  have wf: "process_message requests_get (Dict m) = Inl (Exception msg)"
    if "id_field m \<noteq> None \<and> timestamp_field m \<noteq> None \<and> text_field m \<noteq> None"
  proof -
    from that obtain mid ts body where
      f: "id_field m = Some mid" "timestamp_field m = Some ts" "text_field m = Some body"
      by auto
    show ?thesis
      by (simp add: process_message_wellformed [OF f assms(2,3)] process_report_def fr)
  qed
  have one: "\<exists>e. process_message requests_get (Dict m) = Inl e"
  proof (cases "id_field m \<noteq> None \<and> timestamp_field m \<noteq> None \<and> text_field m \<noteq> None")
    case True
    then show ?thesis using wf by blast
  next
    case False
    then show ?thesis
      using assms(2,3)
      by (auto simp: process_message_def Let_def split: option.splits)
  qed
  then obtain e where "process_message requests_get (Dict m) = Inl e" by blast
  then have "\<exists>e. process_messages requests_get messages = Inl e"
    using process_messages_error [OF assms(1)] by blast
  then show ?thesis using fr wf one by blast
qed

text \<open>
  Claim C5 at a batch of two messages, the second with a report id, and a service that
  answers 503.
\<close>

theorem lookup_failure_aborts_batch_witness:
  "\<exists>msg. fetch_report (\<lambda>_. Response 503 []) ''r1'' = Inl (Exception msg)
     \<and> process_message (\<lambda>_. Response 503 [])
         (Dict \<lparr>id_field = Some 8, timestamp_field = Some ''2024-04-30'',
                text_field = Some ''Hello, world!'', report_id_field = Some ''r1''\<rparr>)
         = Inl (Exception msg)
     \<and> process_messages (\<lambda>_. Response 503 [])
         [Dict \<lparr>id_field = Some 7, timestamp_field = Some ''2024-04-29'',
                text_field = Some ''Hello, world!'', report_id_field = None\<rparr>,
          Dict \<lparr>id_field = Some 8, timestamp_field = Some ''2024-04-30'',
                text_field = Some ''Hello, world!'', report_id_field = Some ''r1''\<rparr>]
         = Inl (Exception msg)"
proof -
  let ?get = "\<lambda>_ :: string. Response 503 []"
  let ?m = "\<lparr>id_field = Some 8, timestamp_field = Some ''2024-04-30'',
             text_field = Some ''Hello, world!'', report_id_field = Some ''r1''\<rparr>"
  let ?ms = "[Dict \<lparr>id_field = Some 7, timestamp_field = Some ''2024-04-29'',
                text_field = Some ''Hello, world!'', report_id_field = None\<rparr>, Dict ?m]"
  have h1: "Dict ?m \<in> set ?ms" by simp
  have h2: "report_id_field ?m = Some ''r1''" by simp
  have h3: "''r1'' \<noteq> []" by simp
  have h4: "?get (report_url ''r1'') = RequestException
         \<or> (\<exists>st b. ?get (report_url ''r1'') = Response st b \<and> st \<noteq> 200 \<and> st \<noteq> 404)"
    by simp
  from lookup_failure_aborts_batch [of ?m ?ms "''r1''" ?get, OF h1 h2 h3 h4]
  obtain msg where
    a: "fetch_report ?get ''r1'' = Inl (Exception msg)" and
    b: "process_message ?get (Dict ?m) = Inl (Exception msg)"
    by auto
  have c: "\<exists>entry. process_message ?get
      (Dict \<lparr>id_field = Some 7, timestamp_field = Some ''2024-04-29'',
             text_field = Some ''Hello, world!'', report_id_field = None\<rparr>) = Inr entry"
    by (simp add: process_message_def Let_def)
  have "process_messages ?get ?ms = Inl (Exception msg)"
    using c by (auto simp: b)
  then show ?thesis using a b by blast
qed

text \<open>
  Claim C9. When the report service answers 200 with a non-empty report that has no
  \<^verbatim>\<open>credit_cost\<close>, \<^verbatim>\<open>process_report\<close> returns the credits 0, the default of
  \<^verbatim>\<open>get\<close>, and the usage record of the message has \<^verbatim>\<open>credits_used\<close> 0: below 1, and
  not the locally calculated credits, which are at least 1.
\<close>

theorem report_without_credit_cost:
  assumes "id_field m = Some mid" "timestamp_field m = Some ts" "text_field m = Some txt"
    and "report_id_field m = Some rid" "rid \<noteq> []"
    and "requests_get (report_url rid) = Response 200 d"
    and "d \<noteq> []" "map_of d ''credit_cost'' = None"
  shows "process_report requests_get rid txt =
           Inr (case map_of d ''name'' of None \<Rightarrow> VNone | Some n \<Rightarrow> n, VNum 0)
     \<and> (\<exists>entry. process_message requests_get (Dict m) = Inr entry
            \<and> credits_used entry = VNum 0
            \<and> credits_used entry \<noteq> VNum (calculate_credits txt))"
proof -
  have fr: "fetch_report requests_get rid = Inr (Some d)"
    using assms(6) by (simp add: fetch_report_def)
  define name where "name = (case map_of d ''name'' of None \<Rightarrow> VNone | Some n \<Rightarrow> n)"
  have pr: "process_report requests_get rid txt = Inr (name, VNum 0)"
    using assms(7,8) by (simp add: process_report_def fr name_def)
  have pm: "process_message requests_get (Dict m) = Inr (make_usage_entry mid ts (VNum 0) name)"
    by (simp add: process_message_wellformed [OF assms(1-5)] pr)
  have cu: "credits_used (make_usage_entry mid ts (VNum 0) name) = VNum 0"
    by (simp add: make_usage_entry_def)
  have "1 \<le> calculate_credits txt"
    by (simp add: calculate_credits_def Let_def)
  then have ne: "VNum 0 \<noteq> VNum (calculate_credits txt)"
    by auto
  show ?thesis using pr pm cu ne by (simp add: name_def)
qed

text \<open>Claim C9 at a report that has a name only.\<close>

theorem report_without_credit_cost_witness:
  "process_message (\<lambda>_. Response 200 [(''name'', VStr ''Lease'')])
       (Dict \<lparr>id_field = Some 7, timestamp_field = Some ''2024-04-29'',
              text_field = Some ''Hello, world!'', report_id_field = Some ''r1''\<rparr>) =
     Inr \<lparr>message_id = 7, timestamp = ''2024-04-29'', credits_used = VNum 0,
          report_name = Some (VStr ''Lease'')\<rparr>"
proof -
  let ?get = "\<lambda>_ :: string. Response 200 [(''name'', VStr ''Lease'')]"
  let ?m = "\<lparr>id_field = Some 7, timestamp_field = Some ''2024-04-29'',
             text_field = Some ''Hello, world!'', report_id_field = Some ''r1''\<rparr>"
  from report_without_credit_cost
    [of ?m 7 "''2024-04-29''" "''Hello, world!''" "''r1''" ?get "[(''name'', VStr ''Lease'')]"]
  obtain entry where "process_message ?get (Dict ?m) = Inr entry" "credits_used entry = VNum 0"
    by auto
  then show ?thesis
    by (simp add: process_message_def Let_def process_report_def fetch_report_def
        make_usage_entry_def)
qed

text \<open>
  Claim C10. When \<^verbatim>\<open>report_id\<close> is the empty string, the outcome of
  \<^verbatim>\<open>process_message\<close> does not depend on the report service at all, and it is the outcome
  for the same message without \<^verbatim>\<open>report_id\<close>; with the required keys present it is the
  usage record with the locally calculated credits and no \<^verbatim>\<open>report_name\<close>.
\<close>

theorem empty_report_id_is_local:
  assumes "report_id_field m = Some []"
  shows "process_message requests_get (Dict m) =
         process_message requests_get' (Dict (m\<lparr>report_id_field := None\<rparr>))
     \<and> (\<forall>mid ts txt. id_field m = Some mid \<and> timestamp_field m = Some ts
            \<and> text_field m = Some txt \<longrightarrow>
          process_message requests_get (Dict m) =
            Inr \<lparr>message_id = mid, timestamp = ts,
                 credits_used = VNum (calculate_credits txt), report_name = None\<rparr>)"
  using assms
  by (auto simp: process_message_def Let_def make_usage_entry_def split: option.splits)

text \<open>Claim C10 at a service where every request would fail.\<close>

theorem empty_report_id_is_local_witness:
  "process_message (\<lambda>_. RequestException)
       (Dict \<lparr>id_field = Some 7, timestamp_field = Some ''2024-04-29'',
              text_field = Some ''Hello, world!'', report_id_field = Some []\<rparr>) =
     Inr \<lparr>message_id = 7, timestamp = ''2024-04-29'',
          credits_used = VNum (calculate_credits ''Hello, world!''), report_name = None\<rparr>"
proof -
  let ?m = "\<lparr>id_field = Some 7, timestamp_field = Some ''2024-04-29'',
             text_field = Some ''Hello, world!'', report_id_field = Some []\<rparr>"
  have h: "report_id_field ?m = Some []" by simp
  have "\<forall>mid ts txt. id_field ?m = Some mid \<and> timestamp_field ?m = Some ts
            \<and> text_field ?m = Some txt \<longrightarrow>
          process_message (\<lambda>_. RequestException) (Dict ?m) =
            Inr \<lparr>message_id = mid, timestamp = ts,
                 credits_used = VNum (calculate_credits txt), report_name = None\<rparr>"
    using empty_report_id_is_local
      [of ?m "\<lambda>_. RequestException" "\<lambda>_. RequestException", OF h]
    by (rule conjunct2)
  then show ?thesis by simp
qed

end
